theory Spec2Isabelle
  imports Complex_Main "HOL-Library.Multiset"
begin

section \<open>Regular expressions of the chunker\<close>

text \<open>
  The program uses three fixed patterns of Go's \<^verbatim>\<open>regexp\<close> package (leftmost-first
  matching, as in Perl). A pattern is represented by its anchored matcher: given the text
  that starts at the current search position, it returns the length of the match that
  starts there, or \<open>None\<close> when no match starts there. None of the three patterns uses
  an anchor or a word boundary, so a match depends on nothing before its start, and each
  of them matches at least two bytes, so no match is empty. Strings are byte lists; all
  bytes the patterns name are ASCII, so matching bytes and matching UTF-8 runes agree.
\<close>

type_synonym regexp = "string \<Rightarrow> nat option"

text \<open>\<^verbatim>\<open>[^>]*>\<close>: the bytes up to and including the first \<^verbatim>\<open>></close>\<close>.\<close>

fun until_gt :: "string \<Rightarrow> nat option" where
  "until_gt [] = None"
| "until_gt (c # cs) = (if c = CHR ''>'' then Some 1 else map_option Suc (until_gt cs))"

text \<open>
  \<^verbatim>\<open>.*?</script>\<close>: the lazy star stops at the first closing tag; the dot does not
  match a line feed.
\<close>

fun until_close :: "string \<Rightarrow> nat option" where
  "until_close [] = None"
| "until_close (c # cs) =
     (if take 9 (c # cs) = ''</script>'' then Some 9
      else if c = CHR 0x0A then None
      else map_option Suc (until_close cs))"

definition is_digit :: "char \<Rightarrow> bool" where
  "is_digit c = (c \<in> set ''0123456789'')"

text \<open>\<^verbatim>\<open>htmlTagPat = regexp.MustCompile(`<[^>]*>`)\<close>\<close>

definition htmlTagPat :: regexp where
  "htmlTagPat s =
     (case s of
        [] \<Rightarrow> None
      | c # cs \<Rightarrow> if c = CHR ''<'' then map_option Suc (until_gt cs) else None)"

text \<open>
  \<^verbatim>\<open>htmlHeadersPat = regexp.MustCompile(`<[hH]\d+[^>]*>`)\<close>: after the first digit, the
  further digits and the other bytes up to the first \<^verbatim>\<open>></close>\<close> are all taken by
  \<^verbatim>\<open>\d+[^>]*\<close>, whichever way the two share them.
\<close>

definition htmlHeadersPat :: regexp where
  "htmlHeadersPat s =
     (case s of
        a # h # d # cs \<Rightarrow>
          if a = CHR ''<'' \<and> (h = CHR ''h'' \<or> h = CHR ''H'') \<and> is_digit d
          then map_option (\<lambda>n. 3 + n) (until_gt cs) else None
      | _ \<Rightarrow> None)"

text \<open>\<^verbatim>\<open>htmlScriptPat = regexp.MustCompile(`<script[^>]*>.*?</script>`)\<close>\<close>

definition htmlScriptPat :: regexp where
  "htmlScriptPat s =
     (if take 7 s = ''<script'' then
        (case until_gt (drop 7 s) of
           None \<Rightarrow> None
         | Some n \<Rightarrow>
             (case until_close (drop (7 + n) s) of
                None \<Rightarrow> None
              | Some m \<Rightarrow> Some (7 + n + m)))
      else None)"

text \<open>
  \<^verbatim>\<open>FindAllStringIndex(s, -1)\<close>: the successive leftmost matches, each as the pair of
  its start and end offsets; after a match the search goes on at its end.
\<close>

fun findAllFrom :: "regexp \<Rightarrow> nat \<Rightarrow> string \<Rightarrow> (nat \<times> nat) list" where
  "findAllFrom re pos [] = []"
| "findAllFrom re pos (c # cs) =
     (case re (c # cs) of
        Some (Suc n) \<Rightarrow> (pos, pos + Suc n) # findAllFrom re (pos + Suc n) (drop n cs)
      | _ \<Rightarrow> findAllFrom re (Suc pos) cs)"

definition FindAllStringIndex :: "regexp \<Rightarrow> string \<Rightarrow> (nat \<times> nat) list" where
  "FindAllStringIndex re s = findAllFrom re 0 s"

text \<open>Go's slice expression \<^verbatim>\<open>s[b:e]\<close>.\<close>

definition slice :: "string \<Rightarrow> nat \<Rightarrow> nat \<Rightarrow> string" where
  "slice s b e = take (e - b) (drop b s)"

text \<open>
  \<^verbatim>\<open>ReplaceAllString(src, repl)\<close> for a replacement without \<^verbatim>\<open>$\<close>: the text between
  the matches is copied, each match becomes \<open>repl\<close>, and the text after the last match
  is copied.
\<close>

fun replace_loop :: "string \<Rightarrow> string \<Rightarrow> nat \<Rightarrow> (nat \<times> nat) list \<Rightarrow> string" where
  "replace_loop src repl lastMatchEnd [] = drop lastMatchEnd src"
| "replace_loop src repl lastMatchEnd ((b, e) # ms) =
     slice src lastMatchEnd b @ repl @ replace_loop src repl e ms"

definition ReplaceAllString :: "regexp \<Rightarrow> string \<Rightarrow> string \<Rightarrow> string" where
  "ReplaceAllString re src repl = replace_loop src repl 0 (FindAllStringIndex re src)"

text \<open>
  \<^verbatim>\<open>Split(s, -1)\<close>, after the library's loop: \<open>beg\<close> is the end of the previous match,
  \<open>end\<close> the start of the current one; a piece is added for every match whose end is
  not 0, and the rest of the text is added unless the last match starts at the end of
  the text. The empty text gives one empty piece.
\<close>

fun split_loop :: "string \<Rightarrow> nat \<Rightarrow> nat \<Rightarrow> (nat \<times> nat) list \<Rightarrow> string list \<times> nat \<times> nat" where
  "split_loop s beg end [] = ([], beg, end)"
| "split_loop s beg end ((b, e) # ms) =
     (case split_loop s e b ms of
        (strings, beg', end') \<Rightarrow>
          ((if e \<noteq> 0 then [slice s beg b] else []) @ strings, beg', end'))"

definition Split :: "regexp \<Rightarrow> string \<Rightarrow> string list" where
  "Split re s =
     (if s = [] then [[]]
      else (case split_loop s 0 0 (FindAllStringIndex re s) of
              (strings, beg, end) \<Rightarrow>
                if end \<noteq> length s then strings @ [drop beg s] else strings))"

section \<open>Documents and chunks\<close>

record Document =
  Title :: string
  Link :: string
  HTML :: string

text \<open>\<^verbatim>\<open>strings.ReplaceAll(d.HTML, "\n", " ")\<close>\<close>

definition replace_newlines :: "string \<Rightarrow> string" where
  "replace_newlines s = map (\<lambda>c. if c = CHR 0x0A then CHR '' '' else c) s"

text \<open>The markup that is split: line feeds replaced, script blocks replaced by a space.\<close>

definition stripped_markup :: "Document \<Rightarrow> string" where
  "stripped_markup d = ReplaceAllString htmlScriptPat (replace_newlines (HTML d)) '' ''"

definition Chunks :: "Document \<Rightarrow> string list" where
  "Chunks d =
     map (\<lambda>c. ReplaceAllString htmlTagPat c '' '') (Split htmlHeadersPat (stripped_markup d))"

text \<open>The two documents of the scenario in the specification's testable properties.\<close>

definition docA :: Document where
  "docA = \<lparr>Title = ''A'', Link = ''a.html'', HTML = ''<h1>Intro</h1>hello world''\<rparr>"

definition docB :: Document where
  "docB = \<lparr>Title = ''B'', Link = ''b.html'', HTML = ''no headings here''\<rparr>"

section \<open>Failures\<close>

text \<open>
  A run-time panic (an index out of range) and the error values the program returns or
  logs are the left injections of a sum type.
\<close>

datatype failure =
  IndexOutOfRange
  | OpenError
  | DecodeError
  | EmbeddingError
  | ConfigMissing
  | CreateError
  | EncodeError

text \<open>Go's index expression \<^verbatim>\<open>xs[i]\<close> for an \<^verbatim>\<open>int\<close> index: it panics out of range.\<close>

definition index_at :: "'a list \<Rightarrow> int \<Rightarrow> failure + 'a" where
  "index_at xs i =
     (if 0 \<le> i \<and> i < int (length xs) then Inr (xs ! nat i) else Inl IndexOutOfRange)"

section \<open>Vectors and distance\<close>

text \<open>
  \<^verbatim>\<open>type Vector []float64\<close>. The component type is a type parameter \<open>'f\<close> with the
  operations the code applies to it (zero, addition, subtraction, multiplication, and the
  comparison \<open><\<close> of two distances); no law of arithmetic is assumed in the definitions.
  The loop of \<^verbatim>\<open>Distance\<close> (\<open>sm\<close> is its \<^verbatim>\<open>sum\<close>) ranges over the receiver \<open>v\<close> and reads \<^verbatim>\<open>v2[i]\<close>, which
  panics once \<open>v2\<close> is exhausted; components of \<open>v2\<close> beyond the length of \<open>v\<close> are never
  read.
\<close>

type_synonym 'f Vector = "'f list"

fun Distance_loop :: "'f::{zero,plus,minus,times} \<Rightarrow> 'f Vector \<Rightarrow> 'f Vector \<Rightarrow> failure + 'f" where
  "Distance_loop sm [] v2 = Inr sm"
| "Distance_loop sm (x # v) [] = Inl IndexOutOfRange"
| "Distance_loop sm (x # v) (y # v2) = Distance_loop (sm + (x - y) * (x - y)) v v2"

definition Distance :: "'f::{zero,plus,minus,times} Vector \<Rightarrow> 'f Vector \<Rightarrow> failure + 'f" where
  "Distance v v2 = Distance_loop 0 v v2"

section \<open>The index\<close>

record ChunkRef =
  DocumentID :: int
  ChunkNumber :: int

record 'f Embedding =
  Vector :: "'f Vector"
  ChunkID :: int

record 'f Index =
  Documents :: "string list"
  Embeddings :: "'f Embedding list"
  ChunkRefs :: "ChunkRef list"

text \<open>
  What a run receives from outside the program: \<open>readDocument\<close> is \<^verbatim>\<open>os.Open\<close> followed
  by the JSON decoding of the file as a \<^verbatim>\<open>Document\<close> (an \<open>OpenError\<close>, a
  \<open>DecodeError\<close>, or the document); \<open>createEmbeddings\<close> is the provider's answer to one
  batched request (\<^verbatim>\<open>resp.Data\<close>, or \<open>None\<close> for an error); \<open>canCreate\<close> tells
  whether \<^verbatim>\<open>os.Create\<close> succeeds on a path; \<open>encodeIndex\<close> is the JSON encoding of an
  index (\<open>None\<close> when the encoder rejects a value), and \<open>gzipBytes\<close> the bytes the gzip
  writer has put into the file, once closed, for the text written to it.
\<close>

record 'f world =
  readDocument :: "string \<Rightarrow> failure + Document"
  createEmbeddings :: "string list \<Rightarrow> 'f Vector list option"
  canCreate :: "string \<Rightarrow> bool"
  encodeIndex :: "'f Index \<Rightarrow> string option"
  gzipBytes :: "string \<Rightarrow> string"

section \<open>Indexing\<close>

text \<open>
  \<^verbatim>\<open>for i, emb := range resp.Data\<close>: one embedding and one chunk reference are appended
  for every vector of the response; the embedding's \<^verbatim>\<open>ChunkID\<close> is the length of
  \<^verbatim>\<open>chunkRefs\<close> before the append.
\<close>

fun append_embeddings :: "nat \<Rightarrow> 'f Vector list \<Rightarrow> 'f Index \<Rightarrow> 'f Index" where
  "append_embeddings i [] st = st"
| "append_embeddings i (emb # data) st =
     append_embeddings (Suc i) data
       (st\<lparr>Embeddings := Embeddings st @ [\<lparr>Vector = emb, ChunkID = int (length (ChunkRefs st))\<rparr>],
           ChunkRefs := ChunkRefs st @
             [\<lparr>DocumentID = int (length (Documents st)), ChunkNumber = int i\<rparr>]\<rparr>)"

text \<open>
  One turn of the scanning loop of \<^verbatim>\<open>runIndex\<close>. A path that cannot be opened or
  decoded, or whose embeddings cannot be fetched, is logged and left out
  (\<^verbatim>\<open>continue\<close>); the three sequences are the state.
\<close>

definition index_document :: "'f world \<Rightarrow> string \<Rightarrow> 'f Index \<Rightarrow> 'f Index" where
  "index_document w path st =
     (case readDocument w path of
        Inl err \<Rightarrow> st
      | Inr doc \<Rightarrow>
          (case createEmbeddings w (Chunks doc) of
             None \<Rightarrow> st
           | Some data \<Rightarrow> (append_embeddings 0 data st)\<lparr>Documents := Documents st @ [path]\<rparr>))"

fun scan_loop :: "'f world \<Rightarrow> string list \<Rightarrow> 'f Index \<Rightarrow> 'f Index" where
  "scan_loop w [] st = st"
| "scan_loop w (path # paths) st = scan_loop w paths (index_document w path st)"

definition build_index :: "'f world \<Rightarrow> string list \<Rightarrow> 'f Index" where
  "build_index w paths = scan_loop w paths \<lparr>Documents = [], Embeddings = [], ChunkRefs = []\<rparr>"

section \<open>Storing the index\<close>

type_synonym disk = "string \<rightharpoonup> string"

definition indexPath :: string where
  "indexPath = ''index.json.gz''"

text \<open>\<^verbatim>\<open>os.Create\<close> truncates the file if it exists and creates it empty otherwise.\<close>

definition os_Create :: "'f world \<Rightarrow> string \<Rightarrow> disk \<Rightarrow> failure + disk" where
  "os_Create w path d = (if canCreate w path then Inr (d(path \<mapsto> [])) else Inl CreateError)"

text \<open>
  The last part of \<^verbatim>\<open>runIndex\<close>. The encoder builds the whole JSON text before it
  writes any of it, so when it fails nothing has been written to the gzip writer, and the
  deferred \<^verbatim>\<open>gz.Close()\<close> writes the stream of the empty text into the file created
  just before. Errors of the writes to the file itself are not modelled.
\<close>

definition persist :: "'f world \<Rightarrow> 'f Index \<Rightarrow> disk \<Rightarrow> disk \<times> failure option" where
  "persist w idx d =
     (case os_Create w indexPath d of
        Inl err \<Rightarrow> (d, Some err)
      | Inr d' \<Rightarrow>
          (case encodeIndex w idx of
             None \<Rightarrow> (d'(indexPath \<mapsto> gzipBytes w []), Some EncodeError)
           | Some js \<Rightarrow> (d'(indexPath \<mapsto> gzipBytes w js), None)))"

text \<open>
  \<^verbatim>\<open>runIndex\<close>: \<open>token\<close> is \<^verbatim>\<open>OPENAI_API_KEY\<close>, \<open>paths\<close> the lines scanned from the
  standard input.
\<close>

definition runIndex :: "'f world \<Rightarrow> string \<Rightarrow> string list \<Rightarrow> disk \<Rightarrow> disk \<times> failure option" where
  "runIndex w token paths d =
     (if token = [] then (d, Some ConfigMissing) else persist w (build_index w paths) d)"

section \<open>Loading the index\<close>









section \<open>Retrieval\<close>

text \<open>
  The comparison passed to \<^verbatim>\<open>sort.Slice\<close>: both distances to the query are computed,
  the left one first, and a panic of either is a panic of the comparison.
\<close>

definition less_emb ::
  "'f::{zero,plus,minus,times,ord} Vector \<Rightarrow> 'f Embedding \<Rightarrow> 'f Embedding \<Rightarrow> failure + bool" where
  "less_emb qEmb a b =
     (case Distance (Vector a) qEmb of
        Inl err \<Rightarrow> Inl err
      | Inr da \<Rightarrow>
          (case Distance (Vector b) qEmb of
             Inl err \<Rightarrow> Inl err
           | Inr db \<Rightarrow> Inr (da < db)))"

text \<open>
  \<^verbatim>\<open>sort.Slice\<close> sorts in place and is not stable. The library sorts a slice of at most
  twelve elements by insertion (\<^verbatim>\<open>insertionSortLessFunc\<close>), which is the routine
  embedded here for every length; on longer slices the library's other phases can differ
  from it only in the order of elements that the comparison does not separate. In
  \<open>bubble\<close> the sorted part before position \<open>i\<close> is held reversed, its last element
  first, and the element \<open>x\<close> moves towards the front while it is less than its
  neighbour. A panic of the comparison stops the sort and leaves the slice as it is at that
  moment; it is returned with the failure.
\<close>

fun bubble :: "('a \<Rightarrow> 'a \<Rightarrow> failure + bool) \<Rightarrow> 'a \<Rightarrow> 'a list \<Rightarrow> 'a list \<times> failure option" where
  "bubble lessFn x [] = ([x], None)"
| "bubble lessFn x (y # rp) =
     (case lessFn x y of
        Inl err \<Rightarrow> (x # y # rp, Some err)
      | Inr True \<Rightarrow> (case bubble lessFn x rp of (r, res) \<Rightarrow> (y # r, res))
      | Inr False \<Rightarrow> (x # y # rp, None))"

fun insertion_sort ::
  "('a \<Rightarrow> 'a \<Rightarrow> failure + bool) \<Rightarrow> 'a list \<Rightarrow> 'a list \<Rightarrow> 'a list \<times> failure option" where
  "insertion_sort lessFn rp [] = (rev rp, None)"
| "insertion_sort lessFn rp (x # xs) =
     (case bubble lessFn x rp of
        (rp', Some err) \<Rightarrow> (rev rp' @ xs, Some err)
      | (rp', None) \<Rightarrow> insertion_sort lessFn rp' xs)"

definition sort_Slice :: "('a \<Rightarrow> 'a \<Rightarrow> failure + bool) \<Rightarrow> 'a list \<Rightarrow> 'a list \<times> failure option" where
  "sort_Slice lessFn xs = insertion_sort lessFn [] xs"

definition maxContextBytes :: nat where
  "maxContextBytes = 4 * 1024"

text \<open>
  The text of the chunk an embedding stands for: its chunk reference, the path of the
  reference's document, the document read again and chunked again, and the chunk with the
  reference's number.
\<close>

definition chunk_content :: "'f world \<Rightarrow> 'f Index \<Rightarrow> 'f Embedding \<Rightarrow> failure + string" where
  "chunk_content w idx emb =
     (case index_at (ChunkRefs idx) (ChunkID emb) of
        Inl err \<Rightarrow> Inl err
      | Inr chunkRef \<Rightarrow>
          (case index_at (Documents idx) (DocumentID chunkRef) of
             Inl err \<Rightarrow> Inl err
           | Inr docPath \<Rightarrow>
               (case readDocument w docPath of
                  Inl err \<Rightarrow> Inl err
                | Inr doc \<Rightarrow> index_at (Chunks doc) (ChunkNumber chunkRef))))"

text \<open>
  The loop of \<^verbatim>\<open>runQuery\<close> that joins chunk contents: it stops before the first chunk
  that would take the size over the limit, and a failure ends the query.
\<close>

fun pack_loop ::
  "'f world \<Rightarrow> 'f Index \<Rightarrow> 'f Embedding list \<Rightarrow> string list \<Rightarrow> nat \<Rightarrow> failure + string list" where
  "pack_loop w idx [] chunks contextSize = Inr chunks"
| "pack_loop w idx (emb # embs) chunks contextSize =
     (case chunk_content w idx emb of
        Inl err \<Rightarrow> Inl err
      | Inr chunkContent \<Rightarrow>
          if contextSize + length chunkContent > maxContextBytes then Inr chunks
          else pack_loop w idx embs (chunks @ [chunkContent]) (contextSize + length chunkContent))"

text \<open>
  The retrieval part of \<^verbatim>\<open>runQuery\<close> for the query's embedding \<open>qEmb\<close>: the sort of
  \<^verbatim>\<open>idx.Embeddings\<close> in place, then the loop. The index is returned as the sort left
  it, since the slice is shared with the caller.
\<close>

definition retrieve ::
  "'f::{zero,plus,minus,times,ord} world \<Rightarrow> 'f Index \<Rightarrow> 'f Vector \<Rightarrow> 'f Index \<times> (failure + string list)" where
  "retrieve w idx qEmb =
     (case sort_Slice (less_emb qEmb) (Embeddings idx) of
        (ranked, res) \<Rightarrow>
          (let idx' = idx\<lparr>Embeddings := ranked\<rparr> in
           (idx', case res of Some err \<Rightarrow> Inl err | None \<Rightarrow> pack_loop w idx' ranked [] 0)))"

text \<open>
  The order of the ranking, used to state its result: both distances to the query are
  defined, and the first is at most the second.
\<close>

definition closer_eq ::
  "'f::{zero,plus,minus,times,ord} Vector \<Rightarrow> 'f Embedding \<Rightarrow> 'f Embedding \<Rightarrow> bool" where
  "closer_eq qEmb a b =
     (case Distance (Vector a) qEmb of
        Inl err \<Rightarrow> False
      | Inr da \<Rightarrow>
          (case Distance (Vector b) qEmb of
             Inl err \<Rightarrow> False
           | Inr db \<Rightarrow> da \<le> db))"

section \<open>Scenarios\<close>

text \<open>
  The corpus of the specification's scenario: the files \<^verbatim>\<open>A\<close> and \<^verbatim>\<open>B\<close> hold the two
  documents and no other path can be opened; the provider answers \<^verbatim>\<open>[0,1]\<close> for the
  chunk of the second document and \<^verbatim>\<open>[1,0]\<close> for any other chunk. The encoder is a
  stand-in that lists the document paths, and the gzip writer a stand-in that puts a
  header before the text.
\<close>

definition scenario_world :: "real world" where
  "scenario_world =
     \<lparr>readDocument =
        (\<lambda>p. if p = ''A'' then Inr docA else if p = ''B'' then Inr docB else Inl OpenError),
      createEmbeddings =
        (\<lambda>chunks. Some (map (\<lambda>c. if c = ''no headings here'' then [0, 1] else [1, 0]) chunks)),
      canCreate = (\<lambda>p. True),
      encodeIndex = (\<lambda>idx. Some (concat (map (\<lambda>p. p @ '';'') (Documents idx)))),
      gzipBytes = (\<lambda>s. ''gzip:'' @ s)\<rparr>"

text \<open>The same, with an encoder that rejects every index.\<close>

definition rejecting_world :: "real world" where
  "rejecting_world = scenario_world\<lparr>encodeIndex := (\<lambda>idx. None)\<rparr>"

text \<open>A disk that holds an index file written by an earlier run.\<close>

definition earlier_disk :: disk where
  "earlier_disk = [indexPath \<mapsto> ''gzip:earlier index'']"

text \<open>
  A corpus of long texts: the file \<^verbatim>\<open>D\<close> holds 2100 bytes and the file \<^verbatim>\<open>H\<close> 5000
  bytes, without any markup.
\<close>

definition long_world :: "real world" where
  "long_world =
     scenario_world\<lparr>readDocument :=
        (\<lambda>p. if p = ''D'' then Inr \<lparr>Title = '''', Link = '''', HTML = replicate 2100 (CHR ''x'')\<rparr>
             else if p = ''H'' then Inr \<lparr>Title = '''', Link = '''', HTML = replicate 5000 (CHR ''x'')\<rparr>
             else Inl OpenError)\<rparr>"

text \<open>Two embeddings of the one chunk of \<^verbatim>\<open>D\<close>, and one embedding of the chunk of \<^verbatim>\<open>H\<close>.\<close>

definition twice_index :: "real Index" where
  "twice_index =
     \<lparr>Documents = [''D''],
      Embeddings = [\<lparr>Vector = [1], ChunkID = 0\<rparr>, \<lparr>Vector = [0], ChunkID = 0\<rparr>],
      ChunkRefs = [\<lparr>DocumentID = 0, ChunkNumber = 0\<rparr>]\<rparr>"

definition huge_index :: "real Index" where
  "huge_index =
     \<lparr>Documents = [''H''],
      Embeddings = [\<lparr>Vector = [0], ChunkID = 0\<rparr>],
      ChunkRefs = [\<lparr>DocumentID = 0, ChunkNumber = 0\<rparr>]\<rparr>"






section \<open>Properties of the chunker\<close>

lemmas chunker_defs =
  Chunks_def stripped_markup_def replace_newlines_def ReplaceAllString_def
  FindAllStringIndex_def Split_def slice_def htmlScriptPat_def htmlTagPat_def
  htmlHeadersPat_def is_digit_def





text \<open>
  Claim C1, as the specification states it, fails on the first document: the pattern of
  headings matches the opening tag \<^verbatim>\<open><h1>\<close> only, so the heading's own text and its
  closing tag stay in the piece after the match, and the closing tag becomes a space. The
  second chunk of \<^verbatim>\<open><h1>Intro</h1>hello world\<close> is \<^verbatim>\<open>Intro hello world\<close>, not
  \<^verbatim>\<open> hello world\<close>.
\<close>

theorem Chunks_scenario_counterexample:
  "Chunks docA \<noteq> ['''', '' hello world'']"
  by (simp add: docA_def chunker_defs)

text \<open>
  Claim C1, amended: chunking a document with the HTML \<^verbatim>\<open><h1>Intro</h1>hello world\<close>
  yields exactly the empty string followed by \<^verbatim>\<open>Intro hello world\<close>, and chunking a
  document with the HTML \<^verbatim>\<open>no headings here\<close> yields exactly that one text.
\<close>

theorem Chunks_scenario:
  "Chunks \<lparr>Title = t, Link = l, HTML = ''<h1>Intro</h1>hello world''\<rparr>
     = ['''', ''Intro hello world'']
   \<and> Chunks \<lparr>Title = t', Link = l', HTML = ''no headings here''\<rparr> = [''no headings here'']"
  by (simp add: chunker_defs)



section \<open>Properties of the distance\<close>

lemma Distance_loop_eq:
  "Distance_loop s a b =
     (if length b < length a then Inl IndexOutOfRange
      else Inr (foldl (\<lambda>s (x, y). s + (x - y) * (x - y)) s (zip a b)))"
  by (induction s a b rule: Distance_loop.induct) auto

text \<open>
  Claim C3, as the specification states it, fails when the receiver is the shorter vector:
  the loop ranges over the receiver only, so the further components of the argument are
  never read and the sum over the receiver's length is returned without any failure.
  (The numbers of this example are small integers, on which floating-point arithmetic is
  exact.)
\<close>

theorem Distance_shorter_receiver_counterexample:
  "length [1::real] \<noteq> length [1, 5::real] \<and> Distance [1::real] [1, 5] = Inr 0"
  by (simp add: Distance_def)

text \<open>
  Claim C3, amended: when the receiver \<open>a\<close> is longer than the argument \<open>b\<close> the distance
  fails with an index out of range; when \<open>a\<close> is not longer than \<open>b\<close> it returns the sum,
  taken from the left and starting at zero, of the squared differences of the components
  at the positions of \<open>a\<close> (the further components of \<open>b\<close> are ignored). For vectors of
  equal length this is the sum of the squared component-wise differences.
\<close>

theorem Distance_lengths:
  "(length b < length a \<longrightarrow> Distance a b = Inl IndexOutOfRange)
   \<and> (length a \<le> length b \<longrightarrow>
        Distance a b = Inr (foldl (\<lambda>s (x, y). s + (x - y) * (x - y)) 0 (zip a b)))"
  by (simp add: Distance_def Distance_loop_eq)

theorem Distance_lengths_witness:
  "length [1::real] < length [1, 2::real] \<and> Distance [1, 2::real] [1] = Inl IndexOutOfRange
   \<and> length [1, 0::real] \<le> length [0, 1::real] \<and> Distance [1, 0::real] [0, 1] = Inr 2"
  using Distance_lengths [where a = "[1, 2::real]" and b = "[1]"]
    Distance_lengths [where a = "[1, 0::real]" and b = "[0, 1]"]
  by simp

section \<open>Properties of indexing\<close>

lemmas scenario_defs =
  scenario_world_def build_index_def index_document_def docA_def docB_def chunker_defs

lemma scan_loop_append: "scan_loop w (ps @ qs) st = scan_loop w qs (scan_loop w ps st)"
  by (induction ps arbitrary: st) auto

text \<open>
  Claim C7: a path whose file cannot be opened or decoded leaves the three sequences as
  they are, and the run goes on with the paths after it: the index built, and the whole
  run, are those of the list of paths without it.
\<close>

theorem skip_unreadable_document:
  "readDocument w p = Inl err \<Longrightarrow>
     index_document w p st = st
     \<and> build_index w (ps @ p # qs) = build_index w (ps @ qs)
     \<and> runIndex w token (ps @ p # qs) d = runIndex w token (ps @ qs) d"
  by (simp add: index_document_def build_index_def runIndex_def scan_loop_append)

theorem skip_unreadable_document_witness:
  "readDocument scenario_world ''missing'' = Inl OpenError
   \<and> Documents (build_index scenario_world ([''A''] @ ''missing'' # [''B''])) = [''A'', ''B'']
   \<and> build_index scenario_world ([''A''] @ ''missing'' # [''B''])
       = build_index scenario_world ([''A''] @ [''B''])
   \<and> runIndex scenario_world ''key'' ([''A''] @ ''missing'' # [''B'']) earlier_disk
       = runIndex scenario_world ''key'' ([''A''] @ [''B'']) earlier_disk"
  using skip_unreadable_document [of scenario_world "''missing''" OpenError _ "[''A'']" "[''B'']"
      "''key''" earlier_disk]
  by (simp add: scenario_defs)

lemma append_embeddings_inv:
  "length (Embeddings st) = length (ChunkRefs st) \<Longrightarrow>
   map ChunkID (Embeddings st) = map int [0..<length (ChunkRefs st)] \<Longrightarrow>
   length (Embeddings (append_embeddings i data st)) = length (ChunkRefs (append_embeddings i data st))
   \<and> map ChunkID (Embeddings (append_embeddings i data st))
       = map int [0..<length (ChunkRefs (append_embeddings i data st))]"
  by (induction i data st rule: append_embeddings.induct) auto

lemma index_document_inv:
  "length (Embeddings st) = length (ChunkRefs st) \<Longrightarrow>
   map ChunkID (Embeddings st) = map int [0..<length (ChunkRefs st)] \<Longrightarrow>
   length (Embeddings (index_document w p st)) = length (ChunkRefs (index_document w p st))
   \<and> map ChunkID (Embeddings (index_document w p st))
       = map int [0..<length (ChunkRefs (index_document w p st))]"
  using append_embeddings_inv [of st 0]
  by (auto simp: index_document_def split: sum.splits option.splits)

lemma scan_loop_inv:
  "length (Embeddings st) = length (ChunkRefs st) \<Longrightarrow>
   map ChunkID (Embeddings st) = map int [0..<length (ChunkRefs st)] \<Longrightarrow>
   length (Embeddings (scan_loop w ps st)) = length (ChunkRefs (scan_loop w ps st))
   \<and> map ChunkID (Embeddings (scan_loop w ps st))
       = map int [0..<length (ChunkRefs (scan_loop w ps st))]"
proof (induction ps arbitrary: st)
  case Nil
  then show ?case by simp
next
  case (Cons p ps)
  from index_document_inv [OF Cons.prems, of w p] Cons.IH [of "index_document w p st"]
  show ?case by simp
qed

text \<open>
  Claim C10: the index built by an indexing run has as many embeddings as chunk
  references, and the \<^verbatim>\<open>ChunkID\<close> of the embedding at every position is that position.
\<close>

theorem chunkID_is_position:
  "length (Embeddings (build_index w paths)) = length (ChunkRefs (build_index w paths))
   \<and> (\<forall>i < length (Embeddings (build_index w paths)).
         ChunkID (Embeddings (build_index w paths) ! i) = int i)"
proof -
  let ?idx = "build_index w paths"
  have inv: "length (Embeddings ?idx) = length (ChunkRefs ?idx)
      \<and> map ChunkID (Embeddings ?idx) = map int [0..<length (ChunkRefs ?idx)]"
    unfolding build_index_def by (rule scan_loop_inv) simp_all
  have "ChunkID (Embeddings ?idx ! i) = int i" if "i < length (Embeddings ?idx)" for i
  proof -
    from that have "ChunkID (Embeddings ?idx ! i) = map ChunkID (Embeddings ?idx) ! i" by simp
    also from inv that have "\<dots> = int i" by simp
    finally show ?thesis .
  qed
  with inv show ?thesis by blast
qed

theorem chunkID_is_position_witness:
  "length (Embeddings (build_index scenario_world [''A'', ''B''])) = 3
   \<and> length (ChunkRefs (build_index scenario_world [''A'', ''B''])) = 3
   \<and> (2::nat) < length (Embeddings (build_index scenario_world [''A'', ''B'']))
   \<and> ChunkID (Embeddings (build_index scenario_world [''A'', ''B'']) ! 2) = 2"
  using chunkID_is_position [of scenario_world "[''A'', ''B'']"]
  by (simp add: scenario_defs)

section \<open>Properties of storing\<close>

text \<open>
  Claim C2, as the specification states it, fails: \<^verbatim>\<open>os.Create\<close> truncates the index
  file before anything is encoded, so when the encoder then fails the file written by an
  earlier run is already gone; the run returns the encoder's error and leaves in the file
  only what its own gzip writer wrote on closing.
\<close>

theorem persist_failure_counterexample:
  "snd (runIndex rejecting_world ''key'' [''A'', ''B''] earlier_disk) = Some EncodeError
   \<and> earlier_disk indexPath = Some ''gzip:earlier index''
   \<and> fst (runIndex rejecting_world ''key'' [''A'', ''B''] earlier_disk) indexPath = Some ''gzip:''"
  by (simp add: runIndex_def persist_def os_Create_def rejecting_world_def scenario_world_def
      earlier_disk_def)

text \<open>
  Claim C2, amended: when the credential is missing or the index file cannot be created,
  the run leaves every file, a previously persisted index included, as it was. Once the
  file has been created the earlier content is discarded whatever follows: the file then
  holds what this run's gzip writer wrote (for the encoded index, or for the empty text
  when encoding fails), and no other file is changed.
\<close>

theorem persist_prior_index:
  "(token = [] \<or> \<not> canCreate w indexPath \<longrightarrow> fst (runIndex w token paths d) = d)
   \<and> (token \<noteq> [] \<and> canCreate w indexPath \<longrightarrow>
        fst (runIndex w token paths d) =
          d(indexPath \<mapsto>
              gzipBytes w (case encodeIndex w (build_index w paths) of None \<Rightarrow> [] | Some js \<Rightarrow> js)))"
  by (simp add: runIndex_def persist_def os_Create_def split: option.splits)

theorem persist_prior_index_witness:
  "fst (runIndex scenario_world [] [''A'', ''B''] earlier_disk) = earlier_disk
   \<and> ''key'' \<noteq> [] \<and> canCreate scenario_world indexPath
   \<and> fst (runIndex scenario_world ''key'' [''A'', ''B''] earlier_disk) indexPath
       = Some ''gzip:A;B;''"
  using persist_prior_index [of "[]" scenario_world "[''A'', ''B'']" earlier_disk]
    persist_prior_index [of "''key''" scenario_world "[''A'', ''B'']" earlier_disk]
  by (simp add: scenario_defs)

section \<open>Properties of retrieval\<close>

lemma mset_bubble: "mset (fst (bubble lessFn x rp)) = add_mset x (mset rp)"
proof (induction rp)
  case Nil
  then show ?case by simp
next
  case (Cons y rp)
  show ?case
  proof (cases "lessFn x y")
    case (Inl err)
    then show ?thesis by simp
  next
    case (Inr r)
    with Cons show ?thesis by (cases r; cases "bubble lessFn x rp") simp_all
  qed
qed


lemma mset_insertion_sort: "mset (fst (insertion_sort lessFn rp xs)) = mset rp + mset xs"
proof (induction xs arbitrary: rp)
  case Nil
  then show ?case by simp
next
  case (Cons x xs)
  obtain rp' res where b: "bubble lessFn x rp = (rp', res)"
    by (cases "bubble lessFn x rp")
  with mset_bubble [of lessFn x rp] have m: "mset rp' = add_mset x (mset rp)" by simp
  show ?case
  proof (cases res)
    case None
    with b Cons.IH [of rp'] m show ?thesis by simp
  next
    case (Some err)
    with b m show ?thesis by simp
  qed
qed

lemma chunk_content_Embeddings:
  "chunk_content w (idx\<lparr>Embeddings := es\<rparr>) = chunk_content w idx"
  by (rule ext) (simp add: chunk_content_def cong: sum.case_cong)

text \<open>
  Claim C9: whatever the outcome of a retrieval run (a panic of the comparison and a
  failure of the loop included), the index it leaves has the documents and the chunk
  references of the index it was given, and its embeddings are a permutation of the
  given ones; so the chunk text that every embedding resolves to is the same before and
  after.
\<close>

theorem retrieve_permutes_embeddings:
  "Documents (fst (retrieve w idx qEmb)) = Documents idx
   \<and> ChunkRefs (fst (retrieve w idx qEmb)) = ChunkRefs idx
   \<and> mset (Embeddings (fst (retrieve w idx qEmb))) = mset (Embeddings idx)
   \<and> chunk_content w (fst (retrieve w idx qEmb)) = chunk_content w idx"
proof -
  obtain ranked res where s: "sort_Slice (less_emb qEmb) (Embeddings idx) = (ranked, res)"
    by (cases "sort_Slice (less_emb qEmb) (Embeddings idx)")
  with mset_insertion_sort [of "less_emb qEmb" "[]" "Embeddings idx"]
  have "mset ranked = mset (Embeddings idx)" by (simp add: sort_Slice_def)
  with s show ?thesis by (simp add: retrieve_def Let_def chunk_content_Embeddings)
qed







text \<open>
  What the loop returns: the chunks held before it, followed by the texts of a first part
  of the embeddings it walks; the size stays within the limit, and when the walk stopped
  early the text of the next embedding would have taken the size over the limit.
\<close>

lemma pack_loop_spec:
  assumes "pack_loop w idx embs acc sz = Inr chunks"
  shows "\<exists>new. chunks = acc @ new \<and> length new \<le> length embs
     \<and> map (chunk_content w idx) (take (length new) embs) = map Inr new
     \<and> (sz \<le> maxContextBytes \<longrightarrow> sz + sum_list (map length new) \<le> maxContextBytes)
     \<and> (length new < length embs \<longrightarrow>
          (\<exists>t. chunk_content w idx (embs ! length new) = Inr t
             \<and> maxContextBytes < sz + sum_list (map length new) + length t))"
  using assms
proof (induction embs arbitrary: acc sz)
  case Nil
  then show ?case by simp
next
  case (Cons e embs)
  show ?case
  proof (cases "chunk_content w idx e")
    case (Inl err)
    with Cons.prems show ?thesis by simp
  next
    case (Inr t)
    show ?thesis
    proof (cases "maxContextBytes < sz + length t")
      case True
      with Inr Cons.prems have "chunks = acc" by simp
      with True Inr show ?thesis by simp
    next
      case False
      with Inr Cons.prems
      have "pack_loop w idx embs (acc @ [t]) (sz + length t) = Inr chunks" by simp
      from Cons.IH [OF this] obtain new where
        n1: "chunks = (acc @ [t]) @ new" and n2: "length new \<le> length embs"
        and n3: "map (chunk_content w idx) (take (length new) embs) = map Inr new"
        and n4: "sz + length t \<le> maxContextBytes \<longrightarrow>
              sz + length t + sum_list (map length new) \<le> maxContextBytes"
        and n5: "length new < length embs \<longrightarrow>
          (\<exists>u. chunk_content w idx (embs ! length new) = Inr u
             \<and> maxContextBytes < sz + length t + sum_list (map length new) + length u)"
        by blast
      have "chunks = acc @ (t # new)" using n1 by simp
      moreover have "length (t # new) \<le> length (e # embs)" using n2 by simp
      moreover have
        "map (chunk_content w idx) (take (length (t # new)) (e # embs)) = map Inr (t # new)"
        using n3 Inr by simp
      moreover have "sz \<le> maxContextBytes \<longrightarrow>
          sz + sum_list (map length (t # new)) \<le> maxContextBytes"
        using n4 False by simp
      moreover have "length (t # new) < length (e # embs) \<longrightarrow>
          (\<exists>u. chunk_content w idx ((e # embs) ! length (t # new)) = Inr u
             \<and> maxContextBytes < sz + sum_list (map length (t # new)) + length u)"
        using n5 by (simp add: add.assoc)
      ultimately show ?thesis by blast
    qed
  qed
qed

lemma retrieve_Inr:
  assumes "snd (retrieve w idx q) = Inr chunks"
  shows "sort_Slice (less_emb q) (Embeddings idx) = (Embeddings (fst (retrieve w idx q)), None)
    \<and> pack_loop w (fst (retrieve w idx q)) (Embeddings (fst (retrieve w idx q))) [] 0 = Inr chunks"
proof -
  obtain ranked res where s: "sort_Slice (less_emb q) (Embeddings idx) = (ranked, res)"
    by (cases "sort_Slice (less_emb q) (Embeddings idx)")
  with assms show ?thesis by (cases res) (simp_all add: retrieve_def Let_def)
qed

text \<open>The chunks returned are the texts of the first embeddings of the ranking.\<close>

lemma retrieve_chunks:
  assumes "snd (retrieve w idx q) = Inr chunks"
  shows "length chunks \<le> length (Embeddings (fst (retrieve w idx q)))
    \<and> map (chunk_content w idx) (take (length chunks) (Embeddings (fst (retrieve w idx q))))
        = map Inr chunks
    \<and> sum_list (map length chunks) \<le> maxContextBytes
    \<and> (length chunks < length (Embeddings (fst (retrieve w idx q))) \<longrightarrow>
         (\<exists>t. chunk_content w idx (Embeddings (fst (retrieve w idx q)) ! length chunks) = Inr t
            \<and> maxContextBytes < sum_list (map length chunks) + length t))"
proof -
  let ?idx' = "fst (retrieve w idx q)"
  have cc: "chunk_content w ?idx' = chunk_content w idx"
  proof -
    obtain ranked res where "sort_Slice (less_emb q) (Embeddings idx) = (ranked, res)"
      by (cases "sort_Slice (less_emb q) (Embeddings idx)")
    then show ?thesis by (simp add: retrieve_def Let_def chunk_content_Embeddings)
  qed
  from retrieve_Inr [OF assms]
  have "pack_loop w ?idx' (Embeddings ?idx') [] 0 = Inr chunks" by simp
  from pack_loop_spec [OF this] cc show ?thesis by auto
qed

lemmas retrieval_defs =
  retrieve_def sort_Slice_def less_emb_def closer_eq_def Distance_def chunk_content_def
  index_at_def maxContextBytes_def

text \<open>A text without any \<^verbatim>\<open><\<close> is one chunk.\<close>

lemma findAllFrom_no_lt:
  assumes "\<And>c cs. c \<noteq> CHR ''<'' \<Longrightarrow> re (c # cs) = None"
  shows "CHR ''<'' \<notin> set s \<Longrightarrow> findAllFrom re pos s = []"
  using assms by (induction s arbitrary: pos) auto

lemma Chunks_plain:
  assumes "CHR ''<'' \<notin> set (HTML d)"
  shows "Chunks d = [replace_newlines (HTML d)]"
proof -
  let ?v = "replace_newlines (HTML d)"
  from assms have nolt: "CHR ''<'' \<notin> set ?v" by (auto simp: replace_newlines_def)
  have s: "findAllFrom htmlScriptPat 0 ?v = []"
    by (rule findAllFrom_no_lt [OF _ nolt]) (simp add: htmlScriptPat_def)
  have h: "findAllFrom htmlHeadersPat 0 ?v = []"
    by (rule findAllFrom_no_lt [OF _ nolt]) (simp add: htmlHeadersPat_def split: list.splits)
  have t: "findAllFrom htmlTagPat 0 ?v = []"
    by (rule findAllFrom_no_lt [OF _ nolt]) (simp add: htmlTagPat_def)
  from s h t show ?thesis
    by (simp add: Chunks_def stripped_markup_def ReplaceAllString_def FindAllStringIndex_def
        Split_def)
qed

lemma Chunks_replicate_x:
  "Chunks \<lparr>Title = t, Link = l, HTML = replicate n (CHR ''x'')\<rparr> = [replicate n (CHR ''x'')]"
  by (simp add: Chunks_plain replace_newlines_def)

text \<open>
  Claim C5: when retrieval returns a context, its chunks are the texts of the first
  embeddings of the ranking, in that order, and their total length in bytes is at most
  4096; if the walk did not reach the end of the ranking, the text of the next embedding
  would have taken the total over 4096; and if the text of the first embedding of the
  ranking is alone longer than 4096 bytes, the context is empty.
\<close>

theorem context_within_budget:
  assumes "snd (retrieve w idx q) = Inr chunks"
  shows "sum_list (map length chunks) \<le> 4096
    \<and> length chunks \<le> length (Embeddings (fst (retrieve w idx q)))
    \<and> map (chunk_content w idx) (take (length chunks) (Embeddings (fst (retrieve w idx q))))
        = map Inr chunks
    \<and> (length chunks < length (Embeddings (fst (retrieve w idx q))) \<longrightarrow>
         (\<exists>t. chunk_content w idx (Embeddings (fst (retrieve w idx q)) ! length chunks) = Inr t
            \<and> 4096 < sum_list (map length chunks) + length t))
    \<and> (\<forall>e es t. Embeddings (fst (retrieve w idx q)) = e # es
          \<and> chunk_content w idx e = Inr t \<and> 4096 < length t \<longrightarrow> chunks = [])"
proof -
  let ?E = "Embeddings (fst (retrieve w idx q))"
  note r = retrieve_chunks [OF assms]
  have "chunks = []"
    if E: "?E = e # es" and t: "chunk_content w idx e = Inr t" and big: "4096 < length t"
    for e es t
  proof (rule ccontr)
    assume "chunks \<noteq> []"
    then obtain c cs where c: "chunks = c # cs" by (cases chunks) auto
    with r E t have "c = t" by simp
    with c r big show False by (simp add: maxContextBytes_def)
  qed
  with r show ?thesis by (simp add: maxContextBytes_def)
qed

theorem context_within_budget_witness:
  "snd (retrieve long_world twice_index [0]) = Inr [replicate 2100 (CHR ''x'')]
   \<and> sum_list (map length [replicate 2100 (CHR ''x'')]) = 2100
   \<and> length (Embeddings (fst (retrieve long_world twice_index [0]))) = 2
   \<and> chunk_content long_world twice_index (Embeddings (fst (retrieve long_world twice_index [0])) ! 1)
       = Inr (replicate 2100 (CHR ''x''))
   \<and> snd (retrieve long_world huge_index [0]) = Inr []
   \<and> chunk_content long_world huge_index (hd (Embeddings (fst (retrieve long_world huge_index [0]))))
       = Inr (replicate 5000 (CHR ''x''))"
  using context_within_budget [of long_world twice_index "[0]" "[replicate 2100 (CHR ''x'')]"]
    context_within_budget [of long_world huge_index "[0]" "[]"]
  by (simp add: retrieval_defs long_world_def scenario_world_def twice_index_def huge_index_def
      Chunks_replicate_x)



section \<open>Properties of loading\<close>







end
